theory Spec2Isabelle
  imports Main "HOL-Library.Word"
begin

section \<open>JavaScript values and typed arrays\<close>

text \<open>
  The buffers of the source are a \<^verbatim>\<open>Uint8Array\<close> (or a Node \<^verbatim>\<open>Buffer\<close>) and a
  \<^verbatim>\<open>Uint32Array\<close>: lists of 8-bit and 32-bit words. Reading an element gives a
  JavaScript number, which is a double and does not wrap on the sums the source forms
  (all far below \<open>2 ^ 53\<close>); it is a \<open>nat\<close> here. A read outside a typed array does not
  fail in JavaScript, it gives \<^verbatim>\<open>undefined\<close>, and arithmetic on \<^verbatim>\<open>undefined\<close> gives
  \<^verbatim>\<open>NaN\<close>: a value read from the buffer is a \<open>nat option\<close>, where \<open>None\<close> stands for
  \<^verbatim>\<open>undefined\<close> or \<^verbatim>\<open>NaN\<close>.
\<close>

type_synonym byte = "8 word"
type_synonym u32 = "32 word"
type_synonym jsnum = "nat option"

text \<open>\<^verbatim>\<open>a[i]\<close> on a \<^verbatim>\<open>Uint32Array\<close>, for a non-negative integer \<open>i\<close>.\<close>

definition elemAt :: "u32 list \<Rightarrow> nat \<Rightarrow> jsnum" where
  "elemAt a i = (if i < length a then Some (unat (a ! i)) else None)"

text \<open>\<^verbatim>\<open>x + y\<close> on numbers: \<^verbatim>\<open>NaN\<close> as soon as one side is \<^verbatim>\<open>undefined\<close>.\<close>

definition jsAdd :: "jsnum \<Rightarrow> jsnum \<Rightarrow> jsnum" where
  "jsAdd x y = (case x of None \<Rightarrow> None | Some a \<Rightarrow> (case y of None \<Rightarrow> None | Some b \<Rightarrow> Some (a + b)))"

text \<open>ECMAScript's ToIntegerOrInfinity: \<^verbatim>\<open>undefined\<close> and \<^verbatim>\<open>NaN\<close> become 0.\<close>

definition toInteger :: "jsnum \<Rightarrow> int" where
  "toInteger x = (case x of None \<Rightarrow> 0 | Some n \<Rightarrow> int n)"

text \<open>
  \<^verbatim>\<open>TypedArray.prototype.subarray(begin, end)\<close>: a negative argument counts from the
  end, both are clamped to the array, and an empty view results when \<open>end\<close> is not
  after \<open>begin\<close>. It never fails.
\<close>

definition relIndex :: "nat \<Rightarrow> int \<Rightarrow> nat" where
  "relIndex n k = (if k < 0 then nat (max (int n + k) 0) else min (nat k) n)"

definition subarray :: "'a list \<Rightarrow> int \<Rightarrow> int \<Rightarrow> 'a list" where
  "subarray xs b e =
     (let bi = relIndex (length xs) b; ei = relIndex (length xs) e
      in take (ei - bi) (drop bi xs))"

text \<open>
  \<^verbatim>\<open>indexOf(value, fromIndex)\<close> for a non-negative \<open>fromIndex\<close>: the first position at
  or after it that holds the value, \<open>-1\<close> when there is none.
\<close>

definition indexOf :: "byte list \<Rightarrow> byte \<Rightarrow> nat \<Rightarrow> int" where
  "indexOf xs v from =
     (let n = from + length (takeWhile (\<lambda>x. x \<noteq> v) (drop from xs))
      in if n < length xs then int n else -1)"

text \<open>
  \<^verbatim>\<open>Buffer.toString("utf8")\<close>. A text is represented by its UTF-8 bytes, one \<open>char\<close>
  per byte; that Node replaces a malformed sequence by U+FFFD is not modelled.
\<close>

definition toStringUtf8 :: "byte list \<Rightarrow> string" where
  "toStringUtf8 bs = map (\<lambda>b. char_of (unat b)) bs"

section \<open>The error bundle (errorBundle.ts)\<close>

record ErrorBundle =
  stringBytes :: "byte list"
  extra :: "u32 list"

record ErrorMessageList =
  len :: jsnum
  start :: jsnum
  compileLogText :: jsnum

record ErrorMessage =
  msg :: jsnum
  count :: jsnum
  srcLoc :: jsnum
  notesLen :: jsnum

record SourceLocation =
  srcPath :: jsnum
  line :: jsnum
  column :: jsnum
  spanStart :: jsnum
  spanMain :: jsnum
  spanEnd :: jsnum
  sourceLine :: jsnum
  referenceTraceLen :: jsnum

text \<open>A node holds \<open>declName\<close> and \<open>srcLoc\<close>, a sentinel holds \<open>hiddenReferences\<close>.\<close>

datatype ReferenceTrace =
  ReferenceTraceNode jsnum jsnum
| ReferenceTraceSentinel jsnum

text \<open>The constructor: a buffer that is not given is an empty typed array.\<close>

definition newErrorBundle :: "byte list option \<Rightarrow> u32 list option \<Rightarrow> ErrorBundle" where
  "newErrorBundle sb ex =
     \<lparr>stringBytes = (case sb of None \<Rightarrow> [] | Some b \<Rightarrow> b),
      extra = (case ex of None \<Rightarrow> [] | Some e \<Rightarrow> e)\<rparr>"

definition getErrorMessageList :: "ErrorBundle \<Rightarrow> ErrorMessageList" where
  "getErrorMessageList b =
     \<lparr>len = elemAt (extra b) 0, start = elemAt (extra b) 1, compileLogText = elemAt (extra b) 2\<rparr>"

definition errorMessageCount :: "ErrorBundle \<Rightarrow> jsnum" where
  "errorMessageCount b =
     (if length (extra b) = 0 then Some 0 else len (getErrorMessageList b))"

definition getMessages :: "ErrorBundle \<Rightarrow> nat list" where
  "getMessages b =
     (let list = getErrorMessageList b
      in map unat (subarray (extra b) (toInteger (start list))
                     (toInteger (jsAdd (start list) (len list)))))"

definition getErrorMessage :: "ErrorBundle \<Rightarrow> nat \<Rightarrow> ErrorMessage" where
  "getErrorMessage b index =
     (let srcLoc = elemAt (extra b) (index + 2)
      in \<lparr>msg = elemAt (extra b) index,
          count = elemAt (extra b) (index + 1),
          srcLoc = (if srcLoc \<noteq> Some 0 then srcLoc else None),
          notesLen = elemAt (extra b) (index + 3)\<rparr>)"

definition getSourceLocation :: "ErrorBundle \<Rightarrow> nat \<Rightarrow> SourceLocation" where
  "getSourceLocation b index =
     (let sourceLine = elemAt (extra b) (index + 6)
      in \<lparr>srcPath = elemAt (extra b) index,
          line = elemAt (extra b) (index + 1),
          column = elemAt (extra b) (index + 2),
          spanStart = elemAt (extra b) (index + 3),
          spanMain = elemAt (extra b) (index + 4),
          spanEnd = elemAt (extra b) (index + 5),
          sourceLine = (if sourceLine \<noteq> Some 0 then sourceLine else None),
          referenceTraceLen = elemAt (extra b) (index + 7)\<rparr>)"

definition getReferenceTrace :: "ErrorBundle \<Rightarrow> nat \<Rightarrow> ReferenceTrace" where
  "getReferenceTrace b index =
     (let srcLoc = elemAt (extra b) (index + 1)
      in if srcLoc = Some 0 then ReferenceTraceSentinel srcLoc
         else ReferenceTraceNode (elemAt (extra b) index) srcLoc)"

definition getNotes :: "ErrorBundle \<Rightarrow> nat \<Rightarrow> nat list" where
  "getNotes b index =
     (let notesLen = notesLen (getErrorMessage b index);
          start = index + 4
      in map unat (subarray (extra b) (int start) (toInteger (jsAdd (Some start) notesLen))))"

definition getReferenceTraces :: "ErrorBundle \<Rightarrow> nat \<Rightarrow> nat list" where
  "getReferenceTraces b index =
     (let referenceTraceLen = referenceTraceLen (getSourceLocation b index);
          start = index + 8
      in map unat (subarray (extra b) (int start)
                     (toInteger (jsAdd (Some start) referenceTraceLen))))"

definition nullTerminatedString :: "ErrorBundle \<Rightarrow> jsnum \<Rightarrow> string" where
  "nullTerminatedString b index =
     (let end = indexOf (stringBytes b) 0 (nat (toInteger index))
      in toStringUtf8 (subarray (stringBytes b) (toInteger index) end))"

definition getCompileLogOutput :: "ErrorBundle \<Rightarrow> string" where
  "getCompileLogOutput b = nullTerminatedString b (compileLogText (getErrorMessageList b))"

subsection \<open>The text renderer\<close>

datatype js_error = RangeError | TypeError

record RenderOptions =
  includeReferenceTrace :: bool
  includeSourceLine :: bool
  includeLogText :: bool

text \<open>
  The renderer subtracts numbers, so its intermediate values are integers that may be
  negative, or \<^verbatim>\<open>NaN\<close> (\<open>None\<close>) when an operand is \<^verbatim>\<open>undefined\<close>.
\<close>

definition jsSub :: "int option \<Rightarrow> int option \<Rightarrow> int option" where
  "jsSub x y = (case x of None \<Rightarrow> None | Some a \<Rightarrow> (case y of None \<Rightarrow> None | Some b \<Rightarrow> Some (a - b)))"

text \<open>\<^verbatim>\<open>Math.min(x, y)\<close>: \<^verbatim>\<open>NaN\<close> when an argument is.\<close>

definition mathMin :: "int option \<Rightarrow> int option \<Rightarrow> int option" where
  "mathMin x y = (case x of None \<Rightarrow> None | Some a \<Rightarrow> (case y of None \<Rightarrow> None | Some b \<Rightarrow> Some (min a b)))"

text \<open>
  \<^verbatim>\<open>String.prototype.repeat(count)\<close>: the count goes through ToIntegerOrInfinity
  (\<^verbatim>\<open>NaN\<close> is 0), and a negative count throws a \<^verbatim>\<open>RangeError\<close>.
\<close>

definition repeat :: "string \<Rightarrow> int option \<Rightarrow> js_error + string" where
  "repeat s cnt =
     (let n = (case cnt of None \<Rightarrow> 0 | Some k \<Rightarrow> k)
      in if n < 0 then Inl RangeError else Inr (concat (replicate (nat n) s)))"

text \<open>\<^verbatim>\<open>s.replace(c, r)\<close> with a one-character string pattern: the first occurrence only.\<close>

fun replaceFirst :: "char \<Rightarrow> string \<Rightarrow> string \<Rightarrow> string" where
  "replaceFirst c r [] = []"
| "replaceFirst c r (x # xs) = (if x = c then r @ xs else x # replaceFirst c r xs)"

text \<open>\<^verbatim>\<open>Number.prototype.toString()\<close> on a non-negative integer, and on \<^verbatim>\<open>x + 1\<close>.\<close>

fun natToString :: "nat \<Rightarrow> string" where
  "natToString n =
     (if n < 10 then [char_of (48 + n)]
      else natToString (n div 10) @ [char_of (48 + n mod 10)])"

declare natToString.simps [simp del]

definition succToString :: "jsnum \<Rightarrow> string" where
  "succToString x = (case x of None \<Rightarrow> ''NaN'' | Some n \<Rightarrow> natToString (n + 1))"

text \<open>
  The message line's ending, shared by both branches of \<^verbatim>\<open>renderErrorMessage\<close>:
  \<^verbatim>\<open>count.toString()\<close> on \<^verbatim>\<open>undefined\<close> throws a \<^verbatim>\<open>TypeError\<close>.
\<close>

definition pushMessage :: "string list \<Rightarrow> string \<Rightarrow> jsnum \<Rightarrow> js_error + string list" where
  "pushMessage str m cnt =
     (if cnt = Some 1 then Inr (str @ [m, [CHR 0x0A]])
      else case cnt of
             None \<Rightarrow> Inl TypeError
           | Some c \<Rightarrow> Inr (str @ [m @ '' ('' @ natToString c @ '' times)'' @ [CHR 0x0A]]))"

text \<open>
  The caret line of \<^verbatim>\<open>renderErrorMessage\<close> (the four \<^verbatim>\<open>repeat\<close> arguments of the last
  \<^verbatim>\<open>push\<close> are evaluated in order, and the first that throws ends the call).
\<close>

definition pushCaretLine :: "string list \<Rightarrow> SourceLocation \<Rightarrow> js_error + string list" where
  "pushCaretLine str src =
     (let beforeCaret = jsSub (map_option int (spanMain src)) (map_option int (spanStart src));
          afterCaret = mathMin (Some 0)
             (jsSub (jsSub (map_option int (spanEnd src)) (map_option int (spanMain src))) (Some 1))
      in case repeat '' '' (jsSub (map_option int (column src)) beforeCaret) of
           Inl e \<Rightarrow> Inl e
         | Inr spaces \<Rightarrow>
             (case repeat ''~'' beforeCaret of
                Inl e \<Rightarrow> Inl e
              | Inr tildesBefore \<Rightarrow>
                  (case repeat ''~'' afterCaret of
                     Inl e \<Rightarrow> Inl e
                   | Inr tildesAfter \<Rightarrow>
                       Inr (str @ [spaces, tildesBefore, ''^'', tildesAfter, [CHR 0x0A]]))))"

text \<open>
  A \<^verbatim>\<open>for ... of\<close> loop over indices whose body may throw or, by the recursion, not
  return (\<open>None\<close>).
\<close>

fun forEachIndex ::
  "(string list \<Rightarrow> nat \<Rightarrow> (js_error + string list) option) \<Rightarrow> string list \<Rightarrow> nat list
     \<Rightarrow> (js_error + string list) option" where
  "forEachIndex f str [] = Some (Inr str)"
| "forEachIndex f str (i # is) =
     (case f str i of
        None \<Rightarrow> None
      | Some (Inl e) \<Rightarrow> Some (Inl e)
      | Some (Inr str') \<Rightarrow> forEachIndex f str' is)"

text \<open>
  \<^verbatim>\<open>renderErrorMessage\<close> recurses through the notes, and nothing keeps a malformed
  bundle from making a message its own note: the first argument bounds the depth of the
  recursion, and \<open>None\<close> says that the bound was reached. The array \<^verbatim>\<open>str\<close> that the
  source appends to is passed in and returned.
\<close>

fun renderErrorMessage ::
  "nat \<Rightarrow> ErrorBundle \<Rightarrow> string list \<Rightarrow> RenderOptions \<Rightarrow> nat \<Rightarrow> string \<Rightarrow> nat
     \<Rightarrow> (js_error + string list) option" where
  "renderErrorMessage 0 b str options errMsgIndex kind indent = None"
| "renderErrorMessage (Suc depth) b str options errMsgIndex kind indent =
     (let errMsg = getErrorMessage b errMsgIndex;
          msg' = nullTerminatedString b (msg errMsg)
      in case srcLoc errMsg of
           Some (Suc l) \<Rightarrow>
             (let src = getSourceLocation b (Suc l);
                  prefixWhitespace = replicate indent CHR '' '';
                  str1 = str @ [prefixWhitespace, nullTerminatedString b (srcPath src),
                     '':'' @ succToString (line src) @ '':'' @ succToString (column src)
                       @ '': '' @ kind @ '': ''];
                  indentedMsg = replaceFirst (CHR 0x0A) prefixWhitespace msg'
              in case pushMessage str1 indentedMsg (count errMsg) of
                   Inl e \<Rightarrow> Some (Inl e)
                 | Inr str2 \<Rightarrow>
                     (case sourceLine src of
                        Some (Suc sl) \<Rightarrow>
                          (if includeSourceLine options then
                             (let line' = nullTerminatedString b (Some (Suc sl));
                                  str3 = str2 @ [replaceFirst (CHR 0x09) '' '' line', [CHR 0x0A]]
                              in Some (pushCaretLine str3 src))
                           else Some (Inr str2))
                      | _ \<Rightarrow> Some (Inr str2)))
         | _ \<Rightarrow>
             (let str1 = str @ [replicate indent CHR '' '' @ kind @ '': '']
              in case pushMessage str1 msg' (count errMsg) of
                   Inl e \<Rightarrow> Some (Inl e)
                 | Inr str2 \<Rightarrow>
                     forEachIndex
                       (\<lambda>str' note. renderErrorMessage depth b str' options note ''note'' (indent + 4))
                       str2 (getNotes b errMsgIndex)))"

definition toString :: "nat \<Rightarrow> ErrorBundle \<Rightarrow> RenderOptions \<Rightarrow> (js_error + string) option" where
  "toString depth b options =
     (case forEachIndex (\<lambda>str errMsg. renderErrorMessage depth b str options errMsg ''error'' 0)
             [] (getMessages b) of
        None \<Rightarrow> None
      | Some (Inl e) \<Rightarrow> Some (Inl e)
      | Some (Inr str) \<Rightarrow>
          (if includeLogText options then
             (let logText = getCompileLogOutput b
              in if length logText \<noteq> 0
                 then Some (Inr (concat (str @ [CHR 0x0A # ''Compile Log Output:'' @ [CHR 0x0A], logText])))
                 else Some (Inr (concat str)))
           else Some (Inr (concat str))))"

section \<open>The serve protocol client (zigServe)\<close>

text \<open>
  \<^verbatim>\<open>Buffer.readUInt32LE(offset)\<close> throws a \<^verbatim>\<open>RangeError\<close> unless four bytes are there.
\<close>

definition readUInt32LE :: "byte list \<Rightarrow> nat \<Rightarrow> js_error + nat" where
  "readUInt32LE buf offset =
     (if offset + 4 \<le> length buf
      then Inr (unat (buf ! offset) + unat (buf ! (offset + 1)) * 2 ^ 8
                + unat (buf ! (offset + 2)) * 2 ^ 16 + unat (buf ! (offset + 3)) * 2 ^ 24)
      else Inl RangeError)"

text \<open>
  The \<^verbatim>\<open>forEach\<close> that fills the new \<^verbatim>\<open>Uint32Array(extraLen)\<close>, at indices \<open>0\<close> to
  \<open>extraLen - 1\<close> in this order; the first read that throws ends it. (The allocation
  itself is taken to succeed: the length check before it bounds \<open>4 * extraLen\<close> by the
  frame length.)
\<close>

primrec readWords :: "byte list \<Rightarrow> nat \<Rightarrow> js_error + u32 list" where
  "readWords extraData 0 = Inr []"
| "readWords extraData (Suc index) =
     (case readWords extraData index of
        Inl e \<Rightarrow> Inl e
      | Inr ws \<Rightarrow>
          (case readUInt32LE extraData (4 * index) of
             Inl e \<Rightarrow> Inl e
           | Inr w \<Rightarrow> Inr (ws @ [of_nat w])))"

datatype ZigServerResult = Success string | Failure ErrorBundle

datatype session_error = InsufficientSize | DataMismatch | UnexpectedTag nat

datatype settlement = Resolved ZigServerResult | Rejected session_error

text \<open>
  What the closure of \<^verbatim>\<open>zigServe\<close> holds and acts on: the reassembly buffer, the
  promise (\<open>None\<close> while it is pending), the texts given to \<^verbatim>\<open>onProgress\<close> so far, and
  whether the child process has been killed.
\<close>

record session =
  dataBuffer :: "byte list"
  promise :: "settlement option"
  progress :: "string list"
  killed :: bool

definition initialSession :: session where
  "initialSession = \<lparr>dataBuffer = [], promise = None, progress = [], killed = False\<rparr>"

text \<open>\<^verbatim>\<open>resolve\<close> and \<^verbatim>\<open>reject\<close>: a promise settles once, later calls change nothing.\<close>

definition settle :: "settlement \<Rightarrow> session \<Rightarrow> session" where
  "settle r s = (case promise s of None \<Rightarrow> s\<lparr>promise := Some r\<rparr> | Some _ \<Rightarrow> s)"

text \<open>
  The listener of the \<^verbatim>\<open>data\<close> event of the child's standard output. \<open>Inl\<close> is an
  exception that leaves the listener.
\<close>

definition onStdoutData :: "session \<Rightarrow> byte list \<Rightarrow> js_error + session" where
  "onStdoutData s stdout =
     (let buf = dataBuffer s @ stdout
      in if 8 \<le> length buf then
           (case readUInt32LE buf 0 of Inl e \<Rightarrow> Inl e | Inr tag \<Rightarrow>
            case readUInt32LE buf 4 of Inl e \<Rightarrow> Inl e | Inr bytesLen \<Rightarrow>
              (let data = subarray buf 8 (int (8 + bytesLen));
                   s1 = s\<lparr>dataBuffer := drop (8 + bytesLen) buf\<rparr>
               in if tag = 0 then Inr s1
                  else if tag = 1 then
                    (if length data < 8 then Inr (settle (Rejected InsufficientSize) s1)
                     else
                       (case readUInt32LE data 0 of Inl e \<Rightarrow> Inl e | Inr extraLen \<Rightarrow>
                        case readUInt32LE data 4 of Inl e \<Rightarrow> Inl e | Inr stringBytesLen \<Rightarrow>
                          (let errorBundleData = drop 8 data
                           in if bytesLen \<noteq> 8 + 4 * extraLen + stringBytesLen
                              then Inr (settle (Rejected DataMismatch) s1)
                              else
                                (let stringBytes' = drop (4 * extraLen) errorBundleData;
                                     extraData = take (4 * extraLen) errorBundleData
                                 in case readWords extraData extraLen of
                                      Inl e \<Rightarrow> Inl e
                                    | Inr extra' \<Rightarrow>
                                        Inr (settle (Resolved (Failure
                                               (newErrorBundle (Some stringBytes') (Some extra')))) s1)))))
                  else if tag = 2 then Inr (s1\<lparr>progress := progress s1 @ [toStringUtf8 data]\<rparr>)
                  else if tag = 3 then
                    Inr (settle (Resolved (Success (toStringUtf8 (drop 1 data)))) s1)
                  else Inr ((settle (Rejected (UnexpectedTag tag)) s1)\<lparr>killed := True\<rparr>)))
         else Inr (s\<lparr>dataBuffer := buf\<rparr>))"

text \<open>The \<^verbatim>\<open>data\<close> events of a run, one chunk each, in the order of arrival.\<close>

fun feed :: "session \<Rightarrow> byte list list \<Rightarrow> js_error + session" where
  "feed s [] = Inr s"
| "feed s (chunk # chunks) =
     (case onStdoutData s chunk of Inl e \<Rightarrow> Inl e | Inr s' \<Rightarrow> feed s' chunks)"

section \<open>Properties of the decoder\<close>

subsection \<open>Slices with non-negative bounds\<close>

lemma subarray_nat: "subarray xs (int s) (int e) = take (e - s) (drop s xs)"
  by (cases "s \<le> length xs") (auto simp: subarray_def relIndex_def Let_def min_def)

lemma subarray_nat_zero: "subarray xs (int s) 0 = []"
  using subarray_nat [of xs s 0] by simp

lemma toInteger_jsAdd:
  "toInteger (jsAdd (Some s) x) = (case x of None \<Rightarrow> 0 | Some n \<Rightarrow> int (s + n))"
  by (simp add: jsAdd_def toInteger_def split: option.splits)

lemma take_drop_nth:
  "k + n \<le> length xs \<Longrightarrow> map f (take n (drop k xs)) = map (\<lambda>j. f (xs ! (k + j))) [0..<n]"
  by (rule nth_equalityI) simp_all

subsection \<open>The root list\<close>

text \<open>
  C6. \<^verbatim>\<open>errorMessageCount\<close> is 0 on a bundle made with no buffers and on every bundle
  whose extra buffer is empty; on any other bundle it is the \<open>len\<close> field of the root
  list, which is the word at index 0 of the extra buffer.
\<close>

theorem errorMessageCount_root_len:
  "errorMessageCount (newErrorBundle None None) = Some 0 \<and>
   (extra b = [] \<longrightarrow> errorMessageCount b = Some 0) \<and>
   (extra b \<noteq> [] \<longrightarrow>
      errorMessageCount b = len (getErrorMessageList b) \<and>
      len (getErrorMessageList b) = Some (unat (extra b ! 0)))"
  by (simp add: errorMessageCount_def newErrorBundle_def getErrorMessageList_def elemAt_def)

theorem errorMessageCount_root_len_witness:
  "errorMessageCount \<lparr>stringBytes = [], extra = []\<rparr> = Some 0 \<and>
   errorMessageCount \<lparr>stringBytes = [0], extra = [2, 3, 0, 5, 9, 1, 1, 0, 0, 1, 1, 0, 0]\<rparr> = Some 2"
  using errorMessageCount_root_len [of "\<lparr>stringBytes = [], extra = []\<rparr>"]
    errorMessageCount_root_len
      [of "\<lparr>stringBytes = [0], extra = [2, 3, 0, 5, 9, 1, 1, 0, 0, 1, 1, 0, 0]\<rparr>"]
  by simp

subsection \<open>Optional fields\<close>

text \<open>
  C7. When the word at \<open>index + 2\<close> of a message record is 0, \<^verbatim>\<open>getErrorMessage\<close> gives a
  message without source location (\<^verbatim>\<open>undefined\<close>, not the index 0); when the word at
  \<open>index + 6\<close> of a source location record is 0, \<^verbatim>\<open>getSourceLocation\<close> gives a
  location without source line.
\<close>

theorem absent_optional_fields:
  "(elemAt (extra b) (i + 2) = Some 0 \<longrightarrow> srcLoc (getErrorMessage b i) = None) \<and>
   (elemAt (extra b) (j + 6) = Some 0 \<longrightarrow> sourceLine (getSourceLocation b j) = None)"
  by (simp add: getErrorMessage_def getSourceLocation_def Let_def)

theorem absent_optional_fields_witness:
  "srcLoc (getErrorMessage \<lparr>stringBytes = [0, 101, 0],
       extra = [1, 3, 0, 4, 1, 1, 0, 0, 1, 7, 2, 0, 0, 0, 0, 0]\<rparr> 4) = None \<and>
   sourceLine (getSourceLocation \<lparr>stringBytes = [0, 101, 0],
       extra = [1, 3, 0, 4, 1, 1, 0, 0, 1, 7, 2, 0, 0, 0, 0, 0]\<rparr> 8) = None"
  using absent_optional_fields [of "\<lparr>stringBytes = [0, 101, 0],
       extra = [1, 3, 0, 4, 1, 1, 0, 0, 1, 7, 2, 0, 0, 0, 0, 0]\<rparr>" 4 8]
  by (simp add: elemAt_def)

subsection \<open>Reference traces\<close>

lemma getReferenceTrace_sentinel_zero:
  "getReferenceTrace b i = ReferenceTraceSentinel h \<Longrightarrow> h = Some 0"
  by (simp add: getReferenceTrace_def Let_def split: if_splits)

lemma getReferenceTrace_sentinel_iff:
  "(\<exists>h. getReferenceTrace b i = ReferenceTraceSentinel h) \<longleftrightarrow> elemAt (extra b) (i + 1) = Some 0"
  by (simp add: getReferenceTrace_def Let_def)

text \<open>
  C3. The record at index 3 below has the words 5 and 0: a sentinel that stands for
  five hidden references. \<^verbatim>\<open>getReferenceTrace\<close> gives a sentinel, but its
  \<open>hiddenReferences\<close> is the second word, which is the 0 that was just tested, and the
  count 5 in the first word is lost.
\<close>

theorem getReferenceTrace_sentinel_drops_count:
  "getReferenceTrace \<lparr>stringBytes = [0], extra = [0, 3, 0, 5, 0]\<rparr> 3
     = ReferenceTraceSentinel (Some 0)"
  by (simp add: getReferenceTrace_def elemAt_def)

subsection \<open>Trailing runs\<close>

lemma notesLen_field: "notesLen (getErrorMessage b i) = elemAt (extra b) (i + 3)"
  by (simp add: getErrorMessage_def Let_def)

lemma referenceTraceLen_field:
  "referenceTraceLen (getSourceLocation b i) = elemAt (extra b) (i + 7)"
  by (simp add: getSourceLocation_def Let_def)

lemma getNotes_run:
  "getNotes b i =
     map unat (take (case notesLen (getErrorMessage b i) of None \<Rightarrow> 0 | Some n \<Rightarrow> n)
                 (drop (i + 4) (extra b)))"
  unfolding getNotes_def Let_def toInteger_jsAdd
  by (simp only: subarray_nat subarray_nat_zero split: option.splits) simp

lemma getReferenceTraces_run:
  "getReferenceTraces b i =
     map unat (take (case referenceTraceLen (getSourceLocation b i) of None \<Rightarrow> 0 | Some n \<Rightarrow> n)
                 (drop (i + 8) (extra b)))"
  unfolding getReferenceTraces_def Let_def toInteger_jsAdd
  by (simp only: subarray_nat subarray_nat_zero split: option.splits) simp

text \<open>
  C8. For a record whose trailing run lies within the extra buffer, \<^verbatim>\<open>getNotes\<close> returns
  as many indices as the \<open>notesLen\<close> field says and \<^verbatim>\<open>getReferenceTraces\<close> as many as
  the \<open>referenceTraceLen\<close> field says, and they are the words that follow the fixed
  fields of the record, in stored order.
\<close>

theorem count_integrity:
  "(notesLen (getErrorMessage b i) = Some n \<and> i + 4 + n \<le> length (extra b) \<longrightarrow>
      length (getNotes b i) = n \<and>
      getNotes b i = map (\<lambda>k. unat (extra b ! (i + 4 + k))) [0..<n]) \<and>
   (referenceTraceLen (getSourceLocation b j) = Some m \<and> j + 8 + m \<le> length (extra b) \<longrightarrow>
      length (getReferenceTraces b j) = m \<and>
      getReferenceTraces b j = map (\<lambda>k. unat (extra b ! (j + 8 + k))) [0..<m])"
proof (intro conjI impI)
  assume a: "notesLen (getErrorMessage b i) = Some n \<and> i + 4 + n \<le> length (extra b)"
  then have run: "getNotes b i = map unat (take n (drop (i + 4) (extra b)))"
    by (simp add: getNotes_run)
  from a show "length (getNotes b i) = n"
    unfolding run by auto
  from a show "getNotes b i = map (\<lambda>k. unat (extra b ! (i + 4 + k))) [0..<n]"
    unfolding run by (simp add: take_drop_nth)
next
  assume a: "referenceTraceLen (getSourceLocation b j) = Some m \<and> j + 8 + m \<le> length (extra b)"
  then have run: "getReferenceTraces b j = map unat (take m (drop (j + 8) (extra b)))"
    by (simp add: getReferenceTraces_run)
  from a show "length (getReferenceTraces b j) = m"
    unfolding run by auto
  from a show "getReferenceTraces b j = map (\<lambda>k. unat (extra b ! (j + 8 + k))) [0..<m]"
    unfolding run by (simp add: take_drop_nth)
qed

theorem count_integrity_witness:
  "getNotes \<lparr>stringBytes = [0], extra = [1, 3, 0, 4, 0, 1, 10, 2, 20, 30,
       0, 0, 0, 0, 0, 0, 0, 3, 40, 50, 60]\<rparr> 4 = [20, 30] \<and>
   getReferenceTraces \<lparr>stringBytes = [0], extra = [1, 3, 0, 4, 0, 1, 10, 2, 20, 30,
       0, 0, 0, 0, 0, 0, 0, 3, 40, 50, 60]\<rparr> 10 = [40, 50, 60]"
  using count_integrity [of "\<lparr>stringBytes = [0], extra = [1, 3, 0, 4, 0, 1, 10, 2, 20, 30,
       0, 0, 0, 0, 0, 0, 0, 3, 40, 50, 60]\<rparr>" 4 2 10 3]
  by (simp add: notesLen_field referenceTraceLen_field elemAt_def upt_rec)

text \<open>
  C10. On every extra buffer and at every index, \<^verbatim>\<open>getNotes\<close> and \<^verbatim>\<open>getReferenceTraces\<close>
  return the declared run cut at the end of the buffer: the words of the buffer from the
  end of the fixed fields on, at most as many as the count field says, so that the length
  is the minimum of the count and of the number of words left. A count field that is
  itself outside the buffer reads as \<^verbatim>\<open>undefined\<close> and gives the empty sequence. Neither
  accessor has a failing branch: element reads and \<^verbatim>\<open>subarray\<close> do not throw.
\<close>

theorem trailing_run_truncated:
  "getNotes b i =
     map unat (take (case notesLen (getErrorMessage b i) of None \<Rightarrow> 0 | Some n \<Rightarrow> n)
                 (drop (i + 4) (extra b))) \<and>
   length (getNotes b i) =
     min (case notesLen (getErrorMessage b i) of None \<Rightarrow> 0 | Some n \<Rightarrow> n)
         (length (extra b) - (i + 4)) \<and>
   getReferenceTraces b j =
     map unat (take (case referenceTraceLen (getSourceLocation b j) of None \<Rightarrow> 0 | Some n \<Rightarrow> n)
                 (drop (j + 8) (extra b))) \<and>
   length (getReferenceTraces b j) =
     min (case referenceTraceLen (getSourceLocation b j) of None \<Rightarrow> 0 | Some n \<Rightarrow> n)
         (length (extra b) - (j + 8))"
  by (simp add: getNotes_run getReferenceTraces_run min.commute)

subsection \<open>Strings\<close>

text \<open>
  C4, as stated, fails: \<^verbatim>\<open>nullTerminatedString\<close> has no case for the index 0, it scans
  from the index it is given. On the storage \<open>a\<close>, \<open>NUL\<close> the lookup of index 0 gives the
  text \<open>a\<close>, and so does \<^verbatim>\<open>getCompileLogOutput\<close> when \<open>compileLogText\<close> is 0.
\<close>

theorem string_index_zero_counterexample:
  "nullTerminatedString \<lparr>stringBytes = [97, 0], extra = [0, 3, 0]\<rparr> (Some 0) = ''a'' \<and>
   compileLogText (getErrorMessageList \<lparr>stringBytes = [97, 0], extra = [0, 3, 0]\<rparr>) = Some 0 \<and>
   getCompileLogOutput \<lparr>stringBytes = [97, 0], extra = [0, 3, 0]\<rparr> = ''a''"
  by (simp add: getCompileLogOutput_def getErrorMessageList_def elemAt_def
      nullTerminatedString_def indexOf_def toInteger_def subarray_def relIndex_def
      toStringUtf8_def char_of_def bit_Suc_0_iff)

text \<open>
  C4, amended. The format keeps a zero byte at position 0 of the string storage. On a
  storage that starts with a zero byte, and on an empty one, the lookup of index 0 gives
  the empty text, and \<^verbatim>\<open>getCompileLogOutput\<close> gives the empty text when
  \<open>compileLogText\<close> is 0.
\<close>

theorem string_index_zero_empty:
  assumes "stringBytes b = [] \<or> hd (stringBytes b) = 0"
  shows "nullTerminatedString b (Some 0) = [] \<and>
    (compileLogText (getErrorMessageList b) = Some 0 \<longrightarrow> getCompileLogOutput b = [])"
proof -
  have "nullTerminatedString b (Some 0) = []"
  proof (cases "stringBytes b")
    case Nil
    then show ?thesis
      by (simp add: nullTerminatedString_def indexOf_def toInteger_def subarray_def
          toStringUtf8_def)
  next
    case (Cons x xs)
    with assms have "x = 0" by simp
    with Cons show ?thesis
      by (simp add: nullTerminatedString_def indexOf_def toInteger_def subarray_def
          relIndex_def toStringUtf8_def)
  qed
  then show ?thesis
    by (simp add: getCompileLogOutput_def)
qed

theorem string_index_zero_empty_witness:
  "nullTerminatedString \<lparr>stringBytes = [0, 97, 0], extra = [0, 3, 0]\<rparr> (Some 0) = [] \<and>
   getCompileLogOutput \<lparr>stringBytes = [0, 97, 0], extra = [0, 3, 0]\<rparr> = []"
  using string_index_zero_empty [of "\<lparr>stringBytes = [0, 97, 0], extra = [0, 3, 0]\<rparr>"]
  by (simp add: getErrorMessageList_def elemAt_def)

section \<open>Properties of the renderer\<close>

lemma natToString_digit: "n < 10 \<Longrightarrow> natToString n = [char_of (48 + n)]"
  by (simp add: natToString.simps)

lemmas string_defs = nullTerminatedString_def indexOf_def toInteger_def subarray_def
  relIndex_def toStringUtf8_def char_of_def bit_Suc_0_iff

text \<open>
  The count of tildes after the caret is \<^verbatim>\<open>Math.min(0, ...)\<close>, which is never positive:
  when the caret line is produced at all, no tilde follows the caret, whatever the span.
\<close>

lemma repeat_min_zero: "repeat s (mathMin (Some 0) x) = Inr t \<Longrightarrow> t = []"
  by (auto simp: repeat_def mathMin_def Let_def split: option.splits if_splits)

lemma pushCaretLine_no_tail:
  "pushCaretLine str src = Inr str' \<Longrightarrow>
     \<exists>spaces tildes. str' = str @ [spaces, tildes, ''^'', [], [CHR 0x0A]]"
  unfolding pushCaretLine_def Let_def
  by (auto split: sum.splits dest: repeat_min_zero)

text \<open>And when the span ends at or before its main position, the caret line throws.\<close>

lemma pushCaretLine_throws:
  "spanEnd src = Some e \<Longrightarrow> spanMain src = Some m \<Longrightarrow> e \<le> m \<Longrightarrow>
     pushCaretLine str src = Inl RangeError"
  unfolding pushCaretLine_def Let_def
  by (auto simp: repeat_def mathMin_def jsSub_def Let_def split: sum.splits option.splits)

text \<open>
  C2. The bundle below holds one message (index 4) with the source location at index 8:
  path \<open>f\<close>, line 0, column 0, a span with \<open>spanStart = spanMain = spanEnd = 0\<close>, and the
  source line \<open>xy\<close>. With \<open>includeSourceLine\<close> set, \<^verbatim>\<open>renderErrorMessage\<close> computes
  \<^verbatim>\<open>Math.min(0, 0 - 0 - 1) = -1\<close> for the tildes after the caret and calls
  \<^verbatim>\<open>"~".repeat(-1)\<close>, which throws a \<^verbatim>\<open>RangeError\<close>: the count is capped at zero from
  above, not floored at zero.
\<close>

theorem renderErrorMessage_negative_repeat:
  "renderErrorMessage (Suc 0)
     \<lparr>stringBytes = [0, 101, 0, 102, 0, 120, 121, 0],
      extra = [1, 3, 0, 4, 1, 1, 8, 0, 3, 0, 0, 0, 0, 0, 5, 0]\<rparr>
     [] \<lparr>includeReferenceTrace = True, includeSourceLine = True, includeLogText = True\<rparr>
     4 ''error'' 0 = Some (Inl RangeError)"
  (is "renderErrorMessage _ ?B _ ?opts _ _ _ = _")
proof -
  have em: "getErrorMessage ?B 4 =
      \<lparr>msg = Some 1, count = Some 1, srcLoc = Some 8, notesLen = Some 0\<rparr>"
    by (simp add: getErrorMessage_def elemAt_def Let_def)
  have src: "getSourceLocation ?B 8 = \<lparr>srcPath = Some 3, line = Some 0, column = Some 0,
      spanStart = Some 0, spanMain = Some 0, spanEnd = Some 0, sourceLine = Some 5,
      referenceTraceLen = Some 0\<rparr>"
    by (simp add: getSourceLocation_def elemAt_def Let_def)
  have caret: "pushCaretLine str \<lparr>srcPath = Some 3, line = Some 0, column = Some 0,
      spanStart = Some 0, spanMain = Some 0, spanEnd = Some 0, sourceLine = Some 5,
      referenceTraceLen = Some 0\<rparr> = Inl RangeError" for str
    by (simp add: pushCaretLine_def jsSub_def mathMin_def repeat_def)
  have "Some (8::nat) = Some (Suc 7)" "Some (5::nat) = Some (Suc 4)"
    by simp_all
  then show ?thesis
    by (simp add: em src caret pushMessage_def del: One_nat_def)
qed

text \<open>The same input through the public \<^verbatim>\<open>toString\<close>.\<close>

lemma toString_negative_repeat:
  "toString (Suc 0)
     \<lparr>stringBytes = [0, 101, 0, 102, 0, 120, 121, 0],
      extra = [1, 3, 0, 4, 1, 1, 8, 0, 3, 0, 0, 0, 0, 0, 5, 0]\<rparr>
     \<lparr>includeReferenceTrace = True, includeSourceLine = True, includeLogText = True\<rparr>
     = Some (Inl RangeError)"
  (is "toString _ ?B ?opts = _")
proof -
  have ms: "getMessages ?B = [4]"
    by (simp add: getMessages_def getErrorMessageList_def elemAt_def toInteger_def jsAdd_def
        subarray_def relIndex_def)
  have em: "getErrorMessage ?B 4 =
      \<lparr>msg = Some 1, count = Some 1, srcLoc = Some 8, notesLen = Some 0\<rparr>"
    by (simp add: getErrorMessage_def elemAt_def Let_def)
  have src: "getSourceLocation ?B 8 = \<lparr>srcPath = Some 3, line = Some 0, column = Some 0,
      spanStart = Some 0, spanMain = Some 0, spanEnd = Some 0, sourceLine = Some 5,
      referenceTraceLen = Some 0\<rparr>"
    by (simp add: getSourceLocation_def elemAt_def Let_def)
  have caret: "pushCaretLine str \<lparr>srcPath = Some 3, line = Some 0, column = Some 0,
      spanStart = Some 0, spanMain = Some 0, spanEnd = Some 0, sourceLine = Some 5,
      referenceTraceLen = Some 0\<rparr> = Inl RangeError" for str
    by (rule pushCaretLine_throws [of _ 0 0]) simp_all
  have "Some (8::nat) = Some (Suc 7)" "Some (5::nat) = Some (Suc 4)"
    by simp_all
  then have "renderErrorMessage (Suc 0) ?B [] ?opts 4 ''error'' 0 = Some (Inl RangeError)"
    by (simp add: em src caret pushMessage_def del: One_nat_def)
  then show ?thesis
    by (simp add: toString_def ms)
qed

text \<open>
  A span of five bytes with the caret on its third, at column 2: the two bytes after
  the caret get no tilde.
\<close>

lemma renderErrorMessage_no_tail:
  "renderErrorMessage (Suc 0)
     \<lparr>stringBytes = [0, 101, 0, 102, 0, 120, 121, 0],
      extra = [1, 3, 0, 4, 1, 1, 8, 0, 3, 0, 2, 0, 2, 5, 5, 0]\<rparr>
     [] \<lparr>includeReferenceTrace = True, includeSourceLine = True, includeLogText = True\<rparr>
     4 ''error'' 0 =
   Some (Inr [[], ''f'', '':1:3: error: '', ''e'', [CHR 0x0A], ''xy'', [CHR 0x0A],
              [], ''~~'', ''^'', [], [CHR 0x0A]])"
  (is "renderErrorMessage _ ?B _ ?opts _ _ _ = _")
proof -
  have em: "getErrorMessage ?B 4 =
      \<lparr>msg = Some 1, count = Some 1, srcLoc = Some 8, notesLen = Some 0\<rparr>"
    by (simp add: getErrorMessage_def elemAt_def Let_def)
  have src: "getSourceLocation ?B 8 = \<lparr>srcPath = Some 3, line = Some 0, column = Some 2,
      spanStart = Some 0, spanMain = Some 2, spanEnd = Some 5, sourceLine = Some 5,
      referenceTraceLen = Some 0\<rparr>"
    by (simp add: getSourceLocation_def elemAt_def Let_def)
  have caret: "pushCaretLine str \<lparr>srcPath = Some 3, line = Some 0, column = Some 2,
      spanStart = Some 0, spanMain = Some 2, spanEnd = Some 5, sourceLine = Some 5,
      referenceTraceLen = Some 0\<rparr> = Inr (str @ [[], ''~~'', ''^'', [], [CHR 0x0A]])" for str
    by (simp add: pushCaretLine_def jsSub_def mathMin_def repeat_def numeral_2_eq_2)
  have strs: "nullTerminatedString ?B (Some 1) = ''e''"
    "nullTerminatedString ?B (Some 3) = ''f''"
    "nullTerminatedString ?B (Some 5) = ''xy''"
    by (simp_all add: string_defs)
  have nums: "succToString (Some 0) = ''1''" "succToString (Some 2) = ''3''"
    by (simp_all add: succToString_def natToString_digit char_of_def bit_Suc_0_iff)
  have "Some (8::nat) = Some (Suc 7)" "Some (5::nat) = Some (Suc 4)"
    by simp_all
  then show ?thesis
    by (simp add: em src caret pushMessage_def strs nums del: One_nat_def)
qed

section \<open>Properties of the protocol client\<close>

lemma subarray_from_8: "subarray buf 8 (int (8 + n)) = take n (drop 8 buf)"
  using subarray_nat [of buf 8 "8 + n"] by simp

lemma settle_pending: "promise s = None \<Longrightarrow> settle r s = s\<lparr>promise := Some r\<rparr>"
  by (simp add: settle_def)

lemma readWords_3: "readWords d 3 = readWords d (Suc (Suc (Suc 0)))"
  by (simp add: numeral_3_eq_3)

lemmas session_defs = initialSession_def onStdoutData_def readUInt32LE_def subarray_def
  relIndex_def settle_def toStringUtf8_def char_of_def bit_Suc_0_iff

subsection \<open>Frames that are complete when the listener runs\<close>

text \<open>
  In the statements below the listener runs on a pending promise, and the buffer with
  the new chunk appended starts with a whole frame: a header with the tag and the length
  \<open>bytesLen\<close>, and at least \<open>bytesLen\<close> bytes after it.
\<close>

text \<open>
  C9. When that frame has tag 3, the listener resolves the promise with a success whose
  path is the text of the payload without its first byte, and keeps what follows the
  frame in the buffer. The frame with the payload \<open>0x00\<close>, \<open>b\<close>, \<open>i\<close>, \<open>n\<close> resolves
  with the path \<open>bin\<close>.
\<close>

theorem artifact_path_frame:
  assumes "promise s = None"
    and "readUInt32LE (dataBuffer s @ chunk) 0 = Inr 3"
    and "readUInt32LE (dataBuffer s @ chunk) 4 = Inr bytesLen"
    and "8 + bytesLen \<le> length (dataBuffer s @ chunk)"
  shows "onStdoutData s chunk =
    Inr (s\<lparr>dataBuffer := drop (8 + bytesLen) (dataBuffer s @ chunk),
          promise := Some (Resolved (Success
            (toStringUtf8 (drop 1 (take bytesLen (drop 8 (dataBuffer s @ chunk)))))))\<rparr>)"
proof -
  define buf where "buf = dataBuffer s @ chunk"
  have tag: "readUInt32LE buf 0 = Inr 3" and len: "readUInt32LE buf 4 = Inr bytesLen"
    and complete: "8 + bytesLen \<le> length buf"
    using assms by (simp_all add: buf_def)
  from complete have header: "8 \<le> length buf"
    by simp
  show ?thesis
    unfolding onStdoutData_def Let_def buf_def [symmetric] subarray_from_8
    using assms(1)
    by (simp add: header tag len settle_pending del: length_take length_drop)
qed

theorem artifact_path_frame_witness:
  "promise initialSession = None \<and>
   onStdoutData initialSession [3, 0, 0, 0, 4, 0, 0, 0, 0, 98, 105, 110] =
     Inr \<lparr>dataBuffer = [], promise = Some (Resolved (Success ''bin'')), progress = [],
          killed = False\<rparr>"
  using artifact_path_frame [of initialSession "[3, 0, 0, 0, 4, 0, 0, 0, 0, 98, 105, 110]" 4]
  by (simp add: initialSession_def readUInt32LE_def toStringUtf8_def char_of_def bit_Suc_0_iff)

text \<open>
  C5. When that frame has tag 1, the listener rejects the promise, and builds no bundle,
  if the payload has fewer than 8 bytes, and also if the two counts \<open>extraLen\<close> and
  \<open>stringBytesLen\<close> in its first 8 bytes do not satisfy
  \<open>bytesLen = 8 + 4 * extraLen + stringBytesLen\<close>.
\<close>

theorem error_bundle_frame_rejected:
  assumes "promise s = None"
    and "readUInt32LE (dataBuffer s @ chunk) 0 = Inr 1"
    and "readUInt32LE (dataBuffer s @ chunk) 4 = Inr bytesLen"
    and "8 + bytesLen \<le> length (dataBuffer s @ chunk)"
    and "payload = take bytesLen (drop 8 (dataBuffer s @ chunk))"
  shows "(bytesLen < 8 \<longrightarrow>
           onStdoutData s chunk =
             Inr (s\<lparr>dataBuffer := drop (8 + bytesLen) (dataBuffer s @ chunk),
                   promise := Some (Rejected InsufficientSize)\<rparr>)) \<and>
         (8 \<le> bytesLen \<and> readUInt32LE payload 0 = Inr extraLen \<and>
          readUInt32LE payload 4 = Inr stringBytesLen \<and>
          bytesLen \<noteq> 8 + 4 * extraLen + stringBytesLen \<longrightarrow>
           onStdoutData s chunk =
             Inr (s\<lparr>dataBuffer := drop (8 + bytesLen) (dataBuffer s @ chunk),
                   promise := Some (Rejected DataMismatch)\<rparr>))"
proof -
  define buf where "buf = dataBuffer s @ chunk"
  have tag: "readUInt32LE buf 0 = Inr 1" and len: "readUInt32LE buf 4 = Inr bytesLen"
    and complete: "8 + bytesLen \<le> length buf"
    using assms by (simp_all add: buf_def)
  from complete have header: "8 \<le> length buf"
    by simp
  from complete have size: "length (take bytesLen (drop 8 buf)) = bytesLen"
    by auto
  show ?thesis
    unfolding assms(5) onStdoutData_def Let_def buf_def [symmetric] subarray_from_8
    using assms(1)
    by (simp add: header tag len size settle_pending del: length_take length_drop)
qed

theorem error_bundle_frame_rejected_witness:
  "onStdoutData initialSession [1, 0, 0, 0, 4, 0, 0, 0, 1, 0, 0, 0] =
     Inr \<lparr>dataBuffer = [], promise = Some (Rejected InsufficientSize), progress = [],
          killed = False\<rparr> \<and>
   onStdoutData initialSession
       [1, 0, 0, 0, 13, 0, 0, 0, 2, 0, 0, 0, 1, 0, 0, 0, 7, 0, 0, 0, 0] =
     Inr \<lparr>dataBuffer = [], promise = Some (Rejected DataMismatch), progress = [],
          killed = False\<rparr>"
  using error_bundle_frame_rejected [of initialSession "[1, 0, 0, 0, 4, 0, 0, 0, 1, 0, 0, 0]" 4
      "[1, 0, 0, 0]" 0 0]
    error_bundle_frame_rejected [of initialSession
      "[1, 0, 0, 0, 13, 0, 0, 0, 2, 0, 0, 0, 1, 0, 0, 0, 7, 0, 0, 0, 0]" 13
      "[2, 0, 0, 0, 1, 0, 0, 0, 7, 0, 0, 0, 0]" 2 1]
  by (simp add: initialSession_def readUInt32LE_def)

subsection \<open>Chunks\<close>

text \<open>
  C1. The stream below is one frame: tag 3, length 4, payload \<open>0x00\<close>, \<open>b\<close>, \<open>i\<close>, \<open>n\<close>.
  Given as one chunk it resolves with the path \<open>bin\<close>. Given as a chunk of 10 bytes and
  a chunk of 2, it resolves with the path \<open>b\<close> on the first chunk: the listener
  dispatches as soon as the 8 bytes of the header are there, with as much of the payload
  as has arrived, and the rest of the payload stays in the buffer.
\<close>

theorem chunking_changes_outcome:
  "feed initialSession [[3, 0, 0, 0, 4, 0, 0, 0, 0, 98, 105, 110]] =
     Inr \<lparr>dataBuffer = [], promise = Some (Resolved (Success ''bin'')), progress = [],
          killed = False\<rparr> \<and>
   feed initialSession [[3, 0, 0, 0, 4, 0, 0, 0, 0, 98], [105, 110]] =
     Inr \<lparr>dataBuffer = [105, 110], promise = Some (Resolved (Success ''b'')), progress = [],
          killed = False\<rparr>"
  by (simp add: session_defs)

text \<open>
  The listener dispatches one frame for each chunk. A version frame and the frame above
  in one chunk leave the promise pending, with the second frame whole in the buffer; the
  same bytes in two chunks resolve it.
\<close>

lemma two_frames_one_chunk:
  "feed initialSession [[0, 0, 0, 0, 0, 0, 0, 0, 3, 0, 0, 0, 4, 0, 0, 0, 0, 98, 105, 110]] =
     Inr \<lparr>dataBuffer = [3, 0, 0, 0, 4, 0, 0, 0, 0, 98, 105, 110], promise = None,
          progress = [], killed = False\<rparr> \<and>
   feed initialSession [[0, 0, 0, 0, 0, 0, 0, 0], [3, 0, 0, 0, 4, 0, 0, 0, 0, 98, 105, 110]] =
     Inr \<lparr>dataBuffer = [], promise = Some (Resolved (Success ''bin'')), progress = [],
          killed = False\<rparr>"
  by (simp add: session_defs)

text \<open>
  An error bundle frame of three words and one string byte, whole and cut after the two
  counts: the cut frame passes both checks and then reads the words from a payload that
  is not there, which throws out of the listener.
\<close>

lemma split_error_bundle_throws:
  "feed initialSession [[1, 0, 0, 0, 21, 0, 0, 0, 3, 0, 0, 0, 1, 0, 0, 0,
                         0, 0, 0, 0, 0, 0, 0, 0, 0, 0, 0, 0, 0]] =
     Inr \<lparr>dataBuffer = [],
          promise = Some (Resolved (Failure \<lparr>stringBytes = [0], extra = [0, 0, 0]\<rparr>)),
          progress = [], killed = False\<rparr> \<and>
   feed initialSession [[1, 0, 0, 0, 21, 0, 0, 0, 3, 0, 0, 0, 1, 0, 0, 0],
                        [0, 0, 0, 0, 0, 0, 0, 0, 0, 0, 0, 0, 0]] = Inl RangeError"
  by (simp add: session_defs newErrorBundle_def readWords_3)

end
